theory Spec2Isabelle
  imports Main "HOL-Library.Word"
begin

unbundle bit_operations_syntax

section \<open>Python values used by \<open>backend/main.py\<close>\<close>

text \<open>
  A Python \<open>str\<close> is modelled as a \<open>string\<close>, one list element per character, so that
  \<open>length\<close> is Python's \<open>len\<close>, which is what \<open>min_length\<close> and \<open>max_length\<close> count.

  A Python \<open>dict\<close> keeps its keys in insertion order and \<open>list(d.values())\<close> follows that
  order, so a dict is an association list. Assigning to a key that is present replaces the
  value where it stands, assigning to a new key appends, \<open>del\<close> removes the entry.
\<close>

type_synonym ('k, 'v) dict = "('k \<times> 'v) list"

definition dict_get :: "('k, 'v) dict \<Rightarrow> 'k \<Rightarrow> 'v option" where
  "dict_get d k = map_of d k"

definition dict_contains :: "'k \<Rightarrow> ('k, 'v) dict \<Rightarrow> bool" where
  "dict_contains k d = (k \<in> set (map fst d))"

primrec dict_setitem :: "'k \<Rightarrow> 'v \<Rightarrow> ('k, 'v) dict \<Rightarrow> ('k, 'v) dict" where
  "dict_setitem k v [] = [(k, v)]"
| "dict_setitem k v (e # es) = (if fst e = k then (k, v) # es else e # dict_setitem k v es)"

primrec dict_delitem :: "'k \<Rightarrow> ('k, 'v) dict \<Rightarrow> ('k, 'v) dict" where
  "dict_delitem k [] = []"
| "dict_delitem k (e # es) = (if fst e = k then dict_delitem k es else e # dict_delitem k es)"

primrec dict_update :: "('k, 'v) dict \<Rightarrow> ('k, 'v) dict \<Rightarrow> ('k, 'v) dict" where
  "dict_update d [] = d"
| "dict_update d (e # es) = dict_update (dict_setitem (fst e) (snd e) d) es"

definition dict_values :: "('k, 'v) dict \<Rightarrow> 'v list" where
  "dict_values d = map snd d"

text \<open>The values that occur in the keyword dictionaries built by the handlers.\<close>

datatype pyval = PyNone | PyStr string | PyList "string list"

subsection \<open>\<open>str(uuid.uuid4())\<close>\<close>

text \<open>
  \<open>uuid.uuid4()\<close> draws 16 random bytes and builds a UUID of version 4 from them; the random
  bytes are a parameter of the model, a 128-bit word. The constructor clears and sets the
  variant and version bits, and \<open>str\<close> prints the 32 hexadecimal digits in the groups
  8-4-4-4-12.
\<close>

definition uuid4 :: "128 word \<Rightarrow> 128 word" where
  "uuid4 r =
     (let i1 = r AND NOT (push_bit 48 0xc000);
          i2 = i1 OR push_bit 48 0x8000;
          i3 = i2 AND NOT (push_bit 64 0xf000)
      in i3 OR push_bit 76 4)"

definition hexdigit :: "nat \<Rightarrow> char" where
  "hexdigit n = ''0123456789abcdef'' ! (n mod 16)"

definition hex32 :: "128 word \<Rightarrow> string" where
  "hex32 u = map (\<lambda>i. hexdigit (unat (take_bit 4 (drop_bit (4 * i) u)))) (rev [0..<32])"

definition str_uuid :: "128 word \<Rightarrow> string" where
  "str_uuid u =
     (let h = hex32 u
      in take 8 h @ ''-'' @ take 4 (drop 8 h) @ ''-'' @ take 4 (drop 12 h) @ ''-'' @
         take 4 (drop 16 h) @ ''-'' @ drop 20 h)"

section \<open>The pydantic models\<close>

text \<open>
  \<open>ProjectUpdate\<close>: every field is optional and defaults to \<open>None\<close>; \<open>fields_set\<close> lists
  the fields the request body gave, which is what \<open>dict(exclude_unset=True)\<close> keeps.
\<close>

record ProjectUpdate =
  title :: "string option"
  description :: "string option"
  tags :: "string list option"
  fields_set :: "string list"

record ProjectBase =
  title :: string
  description :: string
  tags :: "string list"

type_synonym ProjectCreate = ProjectBase

record Project = ProjectBase +
  id' :: string

text \<open>
  What can go wrong: the \<open>HTTPException\<close> a handler raises, the rejection of a request body
  by the framework before the handler runs (status 422, with the offending fields), and a
  pydantic \<open>ValidationError\<close> raised by a model constructor inside a handler or at import.
\<close>

datatype error =
    HTTPException nat string
  | RequestValidationError "string list"
  | ValidationError "string list"

subsection \<open>Field constraints\<close>

definition title_ok :: "string \<Rightarrow> bool" where
  "title_ok t = (1 \<le> length t \<and> length t \<le> 120)"

definition description_ok :: "string \<Rightarrow> bool" where
  "description_ok t = (1 \<le> length t \<and> length t \<le> 2000)"

subsection \<open>Request bodies\<close>

text \<open>
  A field of a decoded JSON body, as the model's type validation sees it: the key is
  missing, its value is \<open>null\<close>, its value is not of the field's declared type, or it is a
  value of that type.
\<close>

datatype 'a field = Unset | Null | Mistyped | Val 'a

record body =
  title_in :: "string field"
  description_in :: "string field"
  tags_in :: "string list field"

text \<open>\<open>ProjectCreate\<close>: title and description are required, tags default to the empty list.\<close>

definition create_title_errors :: "string field \<Rightarrow> string list" where
  "create_title_errors f =
     (case f of Val t \<Rightarrow> if title_ok t then [] else [''title''] | _ \<Rightarrow> [''title''])"

definition create_description_errors :: "string field \<Rightarrow> string list" where
  "create_description_errors f =
     (case f of Val t \<Rightarrow> if description_ok t then [] else [''description'']
      | _ \<Rightarrow> [''description''])"

definition create_tags_errors :: "string list field \<Rightarrow> string list" where
  "create_tags_errors f = (case f of Val ts \<Rightarrow> [] | Unset \<Rightarrow> [] | _ \<Rightarrow> [''tags''])"

definition the_val :: "'a \<Rightarrow> 'a field \<Rightarrow> 'a" where
  "the_val dflt f = (case f of Val v \<Rightarrow> v | _ \<Rightarrow> dflt)"

definition parse_ProjectCreate :: "body \<Rightarrow> error + ProjectCreate" where
  "parse_ProjectCreate b =
     (let errs = create_title_errors (title_in b) @ create_description_errors (description_in b)
                 @ create_tags_errors (tags_in b)
      in if errs \<noteq> [] then Inl (RequestValidationError errs)
         else Inr \<lparr>title = the_val [] (title_in b),
                   description = the_val [] (description_in b),
                   tags = the_val [] (tags_in b)\<rparr>)"

text \<open>\<open>ProjectUpdate\<close>: a field may be missing or null; a string that is given is checked.\<close>

definition update_title_errors :: "string field \<Rightarrow> string list" where
  "update_title_errors f =
     (case f of Val t \<Rightarrow> if title_ok t then [] else [''title'']
      | Mistyped \<Rightarrow> [''title''] | _ \<Rightarrow> [])"

definition update_description_errors :: "string field \<Rightarrow> string list" where
  "update_description_errors f =
     (case f of Val t \<Rightarrow> if description_ok t then [] else [''description'']
      | Mistyped \<Rightarrow> [''description''] | _ \<Rightarrow> [])"

definition update_tags_errors :: "string list field \<Rightarrow> string list" where
  "update_tags_errors f = (case f of Mistyped \<Rightarrow> [''tags''] | _ \<Rightarrow> [])"

definition opt_val :: "'a field \<Rightarrow> 'a option" where
  "opt_val f = (case f of Val v \<Rightarrow> Some v | _ \<Rightarrow> None)"

definition given :: "string \<Rightarrow> 'a field \<Rightarrow> string list" where
  "given name f = (case f of Unset \<Rightarrow> [] | _ \<Rightarrow> [name])"

definition parse_ProjectUpdate :: "body \<Rightarrow> error + ProjectUpdate" where
  "parse_ProjectUpdate b =
     (let errs = update_title_errors (title_in b) @ update_description_errors (description_in b)
                 @ update_tags_errors (tags_in b)
      in if errs \<noteq> [] then Inl (RequestValidationError errs)
         else Inr \<lparr>ProjectUpdate.title = opt_val (title_in b),
                   description = opt_val (description_in b),
                   tags = opt_val (tags_in b),
                   fields_set = given ''title'' (title_in b) @
                                given ''description'' (description_in b) @
                                given ''tags'' (tags_in b)\<rparr>)"

subsection \<open>Model instances and keyword dictionaries\<close>

text \<open>\<open>payload.dict()\<close> and \<open>project.dict()\<close>: the fields in declaration order.\<close>

definition ProjectBase_dict :: "ProjectCreate \<Rightarrow> (string, pyval) dict" where
  "ProjectBase_dict p =
     [(''title'', PyStr (title p)), (''description'', PyStr (description p)),
      (''tags'', PyList (tags p))]"

definition Project_dict :: "Project \<Rightarrow> (string, pyval) dict" where
  "Project_dict p =
     [(''title'', PyStr (title p)), (''description'', PyStr (description p)),
      (''tags'', PyList (tags p)), (''id'', PyStr (id' p))]"

definition str_or_None :: "string option \<Rightarrow> pyval" where
  "str_or_None x = (case x of None \<Rightarrow> PyNone | Some s \<Rightarrow> PyStr s)"

definition list_or_None :: "string list option \<Rightarrow> pyval" where
  "list_or_None x = (case x of None \<Rightarrow> PyNone | Some s \<Rightarrow> PyList s)"

text \<open>\<open>payload.dict(exclude_unset=True)\<close>: only the fields the body gave, null ones included.\<close>

definition ProjectUpdate_dict_exclude_unset :: "ProjectUpdate \<Rightarrow> (string, pyval) dict" where
  "ProjectUpdate_dict_exclude_unset u =
     filter (\<lambda>e. fst e \<in> set (fields_set u))
       [(''title'', str_or_None (ProjectUpdate.title u)),
        (''description'', str_or_None (ProjectUpdate.description u)),
        (''tags'', list_or_None (ProjectUpdate.tags u))]"

text \<open>
  \<open>Project(**kw)\<close>: the constructor validates every field again. A required field that is
  missing or of the wrong type, or a string outside its bounds, is an error; \<open>tags\<close> may be
  missing. Keys that are not fields are ignored.
\<close>

definition init_str_errors :: "(string \<Rightarrow> bool) \<Rightarrow> string \<Rightarrow> pyval option \<Rightarrow> string list" where
  "init_str_errors ok name v =
     (case v of Some (PyStr s) \<Rightarrow> if ok s then [] else [name] | _ \<Rightarrow> [name])"

definition init_tags_errors :: "pyval option \<Rightarrow> string list" where
  "init_tags_errors v = (case v of None \<Rightarrow> [] | Some (PyList ts) \<Rightarrow> [] | _ \<Rightarrow> [''tags''])"

definition the_str :: "pyval option \<Rightarrow> string" where
  "the_str v = (case v of Some (PyStr s) \<Rightarrow> s | _ \<Rightarrow> [])"

definition the_list :: "pyval option \<Rightarrow> string list" where
  "the_list v = (case v of Some (PyList ts) \<Rightarrow> ts | _ \<Rightarrow> [])"

definition Project_init :: "(string, pyval) dict \<Rightarrow> error + Project" where
  "Project_init kw =
     (let errs = init_str_errors title_ok ''title'' (dict_get kw ''title'') @
                 init_str_errors description_ok ''description'' (dict_get kw ''description'') @
                 init_tags_errors (dict_get kw ''tags'') @
                 init_str_errors (\<lambda>s. True) ''id'' (dict_get kw ''id'')
      in if errs \<noteq> [] then Inl (ValidationError errs)
         else Inr \<lparr>title = the_str (dict_get kw ''title''),
                   description = the_str (dict_get kw ''description''),
                   tags = the_list (dict_get kw ''tags''),
                   id' = the_str (dict_get kw ''id'')\<rparr>)"

section \<open>The store and the handlers\<close>

text \<open>
  \<open>PROJECTS\<close> is the module's global dictionary. Every function takes it and returns it,
  changed or not, next to its result; a raised exception is the \<open>Inl\<close> result.
  A model instance is always true in a condition, so \<open>if not project\<close> after
  \<open>PROJECTS.get\<close> is the test for a missing key.
\<close>

type_synonym store = "(string, Project) dict"

definition example_kwargs :: "128 word \<Rightarrow> 128 word \<Rightarrow> 128 word \<Rightarrow> (string, pyval) dict list" where
  "example_kwargs r1 r2 r3 =
     [[(''id'', PyStr (str_uuid (uuid4 r1))),
       (''title'', PyStr ''Midnight Dashboard''),
       (''description'',
          PyStr ''Clean analytics hub with high-contrast dark UI and buttery transitions.''),
       (''tags'', PyList [''React'', ''Framer Motion'', ''A11y''])],
      [(''id'', PyStr (str_uuid (uuid4 r2))),
       (''title'', PyStr ''Aurora Docs''),
       (''description'',
          PyStr ''Documentation site with focus-first typography and instant search.''),
       (''tags'', PyList [''Content'', ''Search'', ''Dark Mode''])],
      [(''id'', PyStr (str_uuid (uuid4 r3))),
       (''title'', PyStr ''Shadow Commerce''),
       (''description'',
          PyStr ''Performance-first storefront with snappy filters and crisp accents.''),
       (''tags'', PyList [''Performance'', ''UI/UX'', ''E-commerce''])]]"

text \<open>The elements of a list display are built left to right; the first failure is raised.\<close>

fun construct_all :: "(string, pyval) dict list \<Rightarrow> error + Project list" where
  "construct_all [] = Inr []"
| "construct_all (kw # kws) =
     (case Project_init kw of
        Inl e \<Rightarrow> Inl e
      | Inr p \<Rightarrow> (case construct_all kws of Inl e \<Rightarrow> Inl e | Inr ps \<Rightarrow> Inr (p # ps)))"

fun store_each :: "Project list \<Rightarrow> store \<Rightarrow> store" where
  "store_each [] PROJECTS = PROJECTS"
| "store_each (p # ps) PROJECTS = store_each ps (dict_setitem (id' p) p PROJECTS)"

definition seed_data :: "128 word \<Rightarrow> 128 word \<Rightarrow> 128 word \<Rightarrow> store \<Rightarrow> (error + unit) \<times> store" where
  "seed_data r1 r2 r3 PROJECTS =
     (if PROJECTS \<noteq> [] then (Inr (), PROJECTS)
      else case construct_all (example_kwargs r1 r2 r3) of
             Inl e \<Rightarrow> (Inl e, PROJECTS)
           | Inr examples \<Rightarrow> (Inr (), store_each examples PROJECTS))"

definition list_projects :: "store \<Rightarrow> Project list \<times> store" where
  "list_projects PROJECTS = (dict_values PROJECTS, PROJECTS)"

definition create_project :: "128 word \<Rightarrow> ProjectCreate \<Rightarrow> store \<Rightarrow> (error + Project) \<times> store" where
  "create_project r payload PROJECTS =
     (let pid = str_uuid (uuid4 r)
      in case Project_init ((''id'', PyStr pid) # ProjectBase_dict payload) of
           Inl e \<Rightarrow> (Inl e, PROJECTS)
         | Inr project \<Rightarrow> (Inr project, dict_setitem pid project PROJECTS))"

definition get_project :: "string \<Rightarrow> store \<Rightarrow> (error + Project) \<times> store" where
  "get_project project_id PROJECTS =
     (case dict_get PROJECTS project_id of
        None \<Rightarrow> (Inl (HTTPException 404 ''Project not found''), PROJECTS)
      | Some project \<Rightarrow> (Inr project, PROJECTS))"

definition update_project :: "string \<Rightarrow> ProjectUpdate \<Rightarrow> store \<Rightarrow> (error + Project) \<times> store" where
  "update_project project_id payload PROJECTS =
     (case dict_get PROJECTS project_id of
        None \<Rightarrow> (Inl (HTTPException 404 ''Project not found''), PROJECTS)
      | Some project \<Rightarrow>
          (let data = Project_dict project;
               updates = ProjectUpdate_dict_exclude_unset payload;
               data = dict_update data (filter (\<lambda>e. snd e \<noteq> PyNone) updates)
           in case Project_init data of
                Inl e \<Rightarrow> (Inl e, PROJECTS)
              | Inr updated \<Rightarrow> (Inr updated, dict_setitem project_id updated PROJECTS)))"

definition delete_project :: "string \<Rightarrow> store \<Rightarrow> (error + unit) \<times> store" where
  "delete_project project_id PROJECTS =
     (if \<not> dict_contains project_id PROJECTS
      then (Inl (HTTPException 404 ''Project not found''), PROJECTS)
      else (Inr (), dict_delitem project_id PROJECTS))"

section \<open>Routes\<close>

text \<open>
  A route parses the request body with the handler's payload model, runs the handler and
  answers with the status code of its decorator; an error becomes an error response.
\<close>

datatype content =
    Empty
  | Detail string
  | FieldErrors "string list"
  | OneProject Project
  | Projects "Project list"

type_synonym response = "nat \<times> content"

fun error_response :: "error \<Rightarrow> response" where
  "error_response (HTTPException code detail) = (code, Detail detail)"
| "error_response (RequestValidationError fs) = (422, FieldErrors fs)"
| "error_response (ValidationError fs) = (500, Detail ''Internal Server Error'')"

definition respond :: "nat \<Rightarrow> ('a \<Rightarrow> content) \<Rightarrow> (error + 'a) \<times> store \<Rightarrow> response \<times> store" where
  "respond code render r =
     (case fst r of Inl e \<Rightarrow> (error_response e, snd r)
      | Inr x \<Rightarrow> ((code, render x), snd r))"

definition GET_projects :: "store \<Rightarrow> response \<times> store" where
  "GET_projects PROJECTS =
     (let r = list_projects PROJECTS in ((200, Projects (fst r)), snd r))"

definition POST_projects :: "128 word \<Rightarrow> body \<Rightarrow> store \<Rightarrow> response \<times> store" where
  "POST_projects r b PROJECTS =
     (case parse_ProjectCreate b of
        Inl e \<Rightarrow> (error_response e, PROJECTS)
      | Inr payload \<Rightarrow> respond 201 OneProject (create_project r payload PROJECTS))"

definition GET_project :: "string \<Rightarrow> store \<Rightarrow> response \<times> store" where
  "GET_project project_id PROJECTS = respond 200 OneProject (get_project project_id PROJECTS)"

definition PUT_project :: "string \<Rightarrow> body \<Rightarrow> store \<Rightarrow> response \<times> store" where
  "PUT_project project_id b PROJECTS =
     (case parse_ProjectUpdate b of
        Inl e \<Rightarrow> (error_response e, PROJECTS)
      | Inr payload \<Rightarrow> respond 200 OneProject (update_project project_id payload PROJECTS))"

definition PATCH_project :: "string \<Rightarrow> body \<Rightarrow> store \<Rightarrow> response \<times> store" where
  "PATCH_project = PUT_project"

definition DELETE_project :: "string \<Rightarrow> store \<Rightarrow> response \<times> store" where
  "DELETE_project project_id PROJECTS =
     respond 204 (\<lambda>_. Empty) (delete_project project_id PROJECTS)"

subsection \<open>The life of the process\<close>

text \<open>
  The module starts with an empty \<open>PROJECTS\<close>, calls \<open>seed_data\<close>, and then serves requests
  in some order; each \<open>POST\<close> comes with the random bytes its \<open>uuid4\<close> call draws. A further
  call of \<open>seed_data\<close> is an event too. The reachable stores are \<open>run evs []\<close>.
\<close>

datatype event =
    Seed "128 word" "128 word" "128 word"
  | List
  | Create "128 word" body
  | Get string
  | Put string body
  | Patch string body
  | Delete string

fun step :: "event \<Rightarrow> store \<Rightarrow> store" where
  "step (Seed r1 r2 r3) s = snd (seed_data r1 r2 r3 s)"
| "step List s = snd (GET_projects s)"
| "step (Create r b) s = snd (POST_projects r b s)"
| "step (Get i) s = snd (GET_project i s)"
| "step (Put i b) s = snd (PUT_project i b s)"
| "step (Patch i b) s = snd (PATCH_project i b s)"
| "step (Delete i) s = snd (DELETE_project i s)"

fun run :: "event list \<Rightarrow> store \<Rightarrow> store" where
  "run [] s = s"
| "run (e # es) s = run es (step e s)"

text \<open>The invariant of the store: keys are distinct, a record sits under its own id, and
  its title and description are within bounds.\<close>

definition record_ok :: "string \<times> Project \<Rightarrow> bool" where
  "record_ok e = (id' (snd e) = fst e \<and> title_ok (title (snd e)) \<and>
                  description_ok (description (snd e)))"

definition store_ok :: "store \<Rightarrow> bool" where
  "store_ok s = (distinct (map fst s) \<and> list_all record_ok s)"

text \<open>
  For a body that \<open>ProjectUpdate\<close> accepts: the entries that survive the filter
  \<open>v is not None\<close> in \<open>update_project\<close>, and the record the merge then builds.
\<close>

definition changes :: "body \<Rightarrow> (string, pyval) dict" where
  "changes b =
     (case title_in b of Val t \<Rightarrow> [(''title'', PyStr t)] | _ \<Rightarrow> []) @
     (case description_in b of Val t \<Rightarrow> [(''description'', PyStr t)] | _ \<Rightarrow> []) @
     (case tags_in b of Val t \<Rightarrow> [(''tags'', PyList t)] | _ \<Rightarrow> [])"

definition merged :: "Project \<Rightarrow> body \<Rightarrow> Project" where
  "merged p b = \<lparr>title = the_val (title p) (title_in b),
                 description = the_val (description p) (description_in b),
                 tags = the_val (tags p) (tags_in b), id' = id' p\<rparr>"

text \<open>
  The validation rules as the specification words them, for a creation body and for an
  update body; they are compared with the parsers above.
\<close>

definition spec_valid_create :: "body \<Rightarrow> bool" where
  "spec_valid_create b =
     ((case title_in b of Val t \<Rightarrow> 1 \<le> length t \<and> length t \<le> 120 | _ \<Rightarrow> False) \<and>
      (case description_in b of Val d \<Rightarrow> 1 \<le> length d \<and> length d \<le> 2000 | _ \<Rightarrow> False) \<and>
      (case tags_in b of Val ts \<Rightarrow> True | Unset \<Rightarrow> True | _ \<Rightarrow> False))"

definition spec_valid_update :: "body \<Rightarrow> bool" where
  "spec_valid_update b =
     ((case title_in b of Val t \<Rightarrow> 1 \<le> length t \<and> length t \<le> 120
       | Mistyped \<Rightarrow> False | _ \<Rightarrow> True) \<and>
      (case description_in b of Val d \<Rightarrow> 1 \<le> length d \<and> length d \<le> 2000
       | Mistyped \<Rightarrow> False | _ \<Rightarrow> True) \<and>
      (case tags_in b of Mistyped \<Rightarrow> False | _ \<Rightarrow> True))"

text \<open>The three records \<open>seed_data\<close> builds, given the identifiers drawn for them.\<close>

definition seed_records :: "string \<Rightarrow> string \<Rightarrow> string \<Rightarrow> Project list" where
  "seed_records i1 i2 i3 =
     [\<lparr>title = ''Midnight Dashboard'',
       description = ''Clean analytics hub with high-contrast dark UI and buttery transitions.'',
       tags = [''React'', ''Framer Motion'', ''A11y''], id' = i1\<rparr>,
      \<lparr>title = ''Aurora Docs'',
       description = ''Documentation site with focus-first typography and instant search.'',
       tags = [''Content'', ''Search'', ''Dark Mode''], id' = i2\<rparr>,
      \<lparr>title = ''Shadow Commerce'',
       description = ''Performance-first storefront with snappy filters and crisp accents.'',
       tags = [''Performance'', ''UI/UX'', ''E-commerce''], id' = i3\<rparr>]"

section \<open>Auxiliary facts\<close>

subsection \<open>Dictionaries\<close>

lemma map_of_setitem: "map_of (dict_setitem k v d) = (map_of d)(k \<mapsto> v)"
  by (induction d) auto

lemma map_of_delitem: "map_of (dict_delitem k d) = (map_of d)(k := None)"
  by (induction d) auto

lemma set_setitem: "set (dict_setitem k v d) \<subseteq> insert (k, v) (set d)"
  by (induction d) auto

lemma keys_setitem:
  "map fst (dict_setitem k v d) = (if k \<in> set (map fst d) then map fst d else map fst d @ [k])"
  by (induction d) auto

lemma distinct_setitem: "distinct (map fst d) \<Longrightarrow> distinct (map fst (dict_setitem k v d))"
  by (simp add: keys_setitem)

lemma delitem_filter: "dict_delitem k d = filter (\<lambda>e. fst e \<noteq> k) d"
  by (induction d) auto

lemma distinct_delitem: "distinct (map fst d) \<Longrightarrow> distinct (map fst (dict_delitem k d))"
  by (simp add: delitem_filter distinct_map_filter)

lemma setitem_new: "k \<notin> set (map fst d) \<Longrightarrow> dict_setitem k v d = d @ [(k, v)]"
  by (induction d) auto

lemma map_of_dict_update:
  "map_of (dict_update d us) k =
     (case map_of (rev us) k of None \<Rightarrow> map_of d k | Some v \<Rightarrow> Some v)"
  by (induction us arbitrary: d) (auto simp: map_of_setitem map_add_def split: option.splits)

lemma dict_update_untouched:
  "k \<notin> fst ` set us \<Longrightarrow> map_of (dict_update d us) k = map_of d k"
proof -
  assume "k \<notin> fst ` set us"
  then have "map_of (rev us) k = None"
    by (simp add: map_of_eq_None_iff)
  then show ?thesis by (simp add: map_of_dict_update)
qed

subsection \<open>Identifiers\<close>

lemma length_hex32: "length (hex32 u) = 32"
  by (simp add: hex32_def)

lemma length_str_uuid: "length (str_uuid u) = 36"
  by (simp add: str_uuid_def Let_def length_hex32)

lemma str_uuid_nonempty: "str_uuid u \<noteq> []"
  using length_str_uuid [of u] by auto

subsection \<open>Parsing and constructing models\<close>

lemma parse_create_ok:
  "parse_ProjectCreate b = Inr c \<longleftrightarrow>
     (\<exists>t d. title_in b = Val t \<and> title_ok t \<and> description_in b = Val d \<and> description_ok d \<and>
        (tags_in b = Unset \<or> (\<exists>ts. tags_in b = Val ts)) \<and>
        c = \<lparr>title = t, description = d, tags = the_val [] (tags_in b)\<rparr>)"
  by (cases "title_in b"; cases "description_in b"; cases "tags_in b")
     (auto simp: parse_ProjectCreate_def Let_def create_title_errors_def
        create_description_errors_def create_tags_errors_def the_val_def)

lemma parse_create_rejected:
  "(\<exists>fs. parse_ProjectCreate b = Inl (RequestValidationError fs)) \<longleftrightarrow>
     \<not> ((\<exists>t. title_in b = Val t \<and> title_ok t) \<and> (\<exists>d. description_in b = Val d \<and> description_ok d) \<and>
        (tags_in b = Unset \<or> (\<exists>ts. tags_in b = Val ts)))"
  by (cases "title_in b"; cases "description_in b"; cases "tags_in b")
     (auto simp: parse_ProjectCreate_def Let_def create_title_errors_def
        create_description_errors_def create_tags_errors_def the_val_def)

lemma parse_update_ok:
  "(\<exists>u. parse_ProjectUpdate b = Inr u) \<longleftrightarrow>
     (case title_in b of Val t \<Rightarrow> title_ok t | Mistyped \<Rightarrow> False | _ \<Rightarrow> True) \<and>
     (case description_in b of Val t \<Rightarrow> description_ok t | Mistyped \<Rightarrow> False | _ \<Rightarrow> True) \<and>
     tags_in b \<noteq> Mistyped"
  by (simp add: parse_ProjectUpdate_def Let_def update_title_errors_def
      update_description_errors_def update_tags_errors_def split: field.splits)

lemma parse_update_rejected:
  "(\<exists>fs. parse_ProjectUpdate b = Inl (RequestValidationError fs)) \<longleftrightarrow>
     \<not> ((case title_in b of Val t \<Rightarrow> title_ok t | Mistyped \<Rightarrow> False | _ \<Rightarrow> True) \<and>
     (case description_in b of Val t \<Rightarrow> description_ok t | Mistyped \<Rightarrow> False | _ \<Rightarrow> True) \<and>
     tags_in b \<noteq> Mistyped)"
  by (simp add: parse_ProjectUpdate_def Let_def update_title_errors_def
      update_description_errors_def update_tags_errors_def split: field.splits)

lemma Project_init_bounds:
  assumes "Project_init kw = Inr p"
  shows "title_ok (title p) \<and> description_ok (description p)"
proof -
  from assms have e: "init_str_errors title_ok ''title'' (dict_get kw ''title'') = []"
      "init_str_errors description_ok ''description'' (dict_get kw ''description'') = []"
    and p: "p = \<lparr>title = the_str (dict_get kw ''title''),
                   description = the_str (dict_get kw ''description''),
                   tags = the_list (dict_get kw ''tags''),
                   id' = the_str (dict_get kw ''id'')\<rparr>"
    by (auto simp: Project_init_def Let_def split: if_splits)
  from e show ?thesis unfolding p
    by (auto simp: init_str_errors_def the_str_def split: option.splits pyval.splits if_splits)
qed

lemma Project_init_id:
  assumes "Project_init kw = Inr p"
  shows "dict_get kw ''id'' = Some (PyStr (id' p))"
proof -
  from assms have e: "init_str_errors (\<lambda>s. True) ''id'' (dict_get kw ''id'') = []"
    and p: "p = \<lparr>title = the_str (dict_get kw ''title''),
                   description = the_str (dict_get kw ''description''),
                   tags = the_list (dict_get kw ''tags''),
                   id' = the_str (dict_get kw ''id'')\<rparr>"
    by (auto simp: Project_init_def Let_def split: if_splits)
  from e show ?thesis unfolding p
    by (auto simp: init_str_errors_def the_str_def split: option.splits pyval.splits if_splits)
qed

lemma Project_init_create:
  assumes "title_ok (title c)" "description_ok (description c)"
  shows "Project_init ((''id'', PyStr i) # ProjectBase_dict c) =
           Inr \<lparr>title = title c, description = description c, tags = tags c, id' = i\<rparr>"
  using assms
  by (simp add: Project_init_def ProjectBase_dict_def dict_get_def init_str_errors_def
      init_tags_errors_def the_str_def the_list_def)

lemma Project_init_create_id:
  assumes "Project_init ((''id'', PyStr i) # ProjectBase_dict c) = Inr p"
  shows "id' p = i"
  using Project_init_id [OF assms] by (simp add: dict_get_def)

lemma exclude_unset_keys:
  "fst ` set (ProjectUpdate_dict_exclude_unset u) \<subseteq> {''title'', ''description'', ''tags''}"
  by (auto simp: ProjectUpdate_dict_exclude_unset_def)

lemma Project_init_update_id:
  assumes "Project_init (dict_update (Project_dict p)
             (filter (\<lambda>e. snd e \<noteq> PyNone) (ProjectUpdate_dict_exclude_unset u))) = Inr q"
  shows "id' q = id' p"
proof -
  let ?us = "filter (\<lambda>e. snd e \<noteq> PyNone) (ProjectUpdate_dict_exclude_unset u)"
  have "fst ` set ?us \<subseteq> {''title'', ''description'', ''tags''}"
    using exclude_unset_keys [of u] by auto
  then have "''id'' \<notin> fst ` set ?us" by auto
  then have "map_of (dict_update (Project_dict p) ?us) ''id'' = map_of (Project_dict p) ''id''"
    by (rule dict_update_untouched)
  also have "\<dots> = Some (PyStr (id' p))"
    by (simp add: Project_dict_def)
  finally show ?thesis
    using Project_init_id [OF assms] by (simp add: dict_get_def)
qed

lemma filter_updates:
  assumes "parse_ProjectUpdate b = Inr u"
  shows "filter (\<lambda>e. snd e \<noteq> PyNone) (ProjectUpdate_dict_exclude_unset u) = changes b"
proof -
  from assms have u: "u = \<lparr>ProjectUpdate.title = opt_val (title_in b),
                   description = opt_val (description_in b),
                   tags = opt_val (tags_in b),
                   fields_set = given ''title'' (title_in b) @
                                given ''description'' (description_in b) @
                                given ''tags'' (tags_in b)\<rparr>"
    by (simp add: parse_ProjectUpdate_def Let_def split: if_splits)
  show ?thesis
    unfolding u ProjectUpdate_dict_exclude_unset_def changes_def
    by (cases "title_in b"; cases "description_in b"; cases "tags_in b";
        simp add: opt_val_def given_def str_or_None_def list_or_None_def)
qed

lemma init_merged:
  assumes "parse_ProjectUpdate b = Inr u" "title_ok (title p)" "description_ok (description p)"
  shows "Project_init (dict_update (Project_dict p) (changes b)) = Inr (merged p b)"
proof -
  from assms(1) have ok:
    "(case title_in b of Val t \<Rightarrow> title_ok t | Mistyped \<Rightarrow> False | _ \<Rightarrow> True)"
    "(case description_in b of Val t \<Rightarrow> description_ok t | Mistyped \<Rightarrow> False | _ \<Rightarrow> True)"
    using parse_update_ok [of b] by auto
  show ?thesis
    using ok assms(2,3)
    unfolding changes_def merged_def Project_init_def Project_dict_def
    by (cases "title_in b"; cases "description_in b"; cases "tags_in b";
        simp add: dict_get_def the_val_def init_str_errors_def init_tags_errors_def
          the_str_def the_list_def)
qed


subsection \<open>Handlers\<close>

lemma filter_setitem:
  "filter (\<lambda>e. fst e \<noteq> k) (dict_setitem k v d) = filter (\<lambda>e. fst e \<noteq> k) d"
  by (induction d) auto

lemma filter_delitem:
  "filter (\<lambda>e. fst e \<noteq> k) (dict_delitem k d) = filter (\<lambda>e. fst e \<noteq> k) d"
  by (induction d) auto

lemma contains_iff_get: "dict_contains k d \<longleftrightarrow> dict_get d k \<noteq> None"
  by (simp add: dict_contains_def dict_get_def map_of_eq_None_iff)

lemma create_project_valid:
  assumes "title_ok (title c)" "description_ok (description c)"
  shows "create_project r c s =
           (let p = \<lparr>title = title c, description = description c, tags = tags c,
                     id' = str_uuid (uuid4 r)\<rparr>
            in (Inr p, dict_setitem (str_uuid (uuid4 r)) p s))"
  using Project_init_create [OF assms] by (simp add: create_project_def Let_def)

lemma update_project_found:
  assumes "dict_get s i = Some p" "parse_ProjectUpdate b = Inr u"
    and "title_ok (title p)" "description_ok (description p)"
  shows "update_project i u s = (Inr (merged p b), dict_setitem i (merged p b) s)"
  using assms(1) filter_updates [OF assms(2)] init_merged [OF assms(2,3,4)]
  by (simp add: update_project_def Let_def)

subsection \<open>The invariant of the store\<close>

lemma store_ok_lookup:
  assumes "store_ok s" "dict_get s k = Some p"
  shows "id' p = k \<and> title_ok (title p) \<and> description_ok (description p)"
proof -
  from assms(2) have "(k, p) \<in> set s"
    by (simp add: dict_get_def map_of_SomeD)
  with assms(1) have "record_ok (k, p)"
    by (simp add: store_ok_def list_all_iff)
  then show ?thesis by (simp add: record_ok_def)
qed

lemma store_ok_setitem:
  assumes "store_ok s" "record_ok (k, p)"
  shows "store_ok (dict_setitem k p s)"
proof -
  have "\<forall>e \<in> set (dict_setitem k p s). record_ok e"
    using set_setitem [of k p s] assms by (auto simp: store_ok_def list_all_iff)
  with assms(1) show ?thesis
    by (simp add: store_ok_def list_all_iff distinct_setitem)
qed

lemma store_ok_delitem: "store_ok s \<Longrightarrow> store_ok (dict_delitem k s)"
  by (simp add: store_ok_def list_all_iff distinct_delitem) (simp add: delitem_filter)

lemma store_ok_create: "store_ok s \<Longrightarrow> store_ok (snd (create_project r c s))"
proof (cases "Project_init ((''id'', PyStr (str_uuid (uuid4 r))) # ProjectBase_dict c)")
  case (Inl e)
  assume "store_ok s"
  with Inl show ?thesis by (simp add: create_project_def Let_def)
next
  case (Inr p)
  assume ok: "store_ok s"
  from Inr have "record_ok (str_uuid (uuid4 r), p)"
    using Project_init_bounds [OF Inr] Project_init_create_id [OF Inr]
    by (simp add: record_ok_def)
  with ok Inr show ?thesis
    by (simp add: create_project_def Let_def store_ok_setitem)
qed

lemma store_ok_update: "store_ok s \<Longrightarrow> store_ok (snd (update_project i u s))"
proof (cases "dict_get s i")
  case None
  assume "store_ok s"
  with None show ?thesis by (simp add: update_project_def)
next
  case (Some p)
  assume ok: "store_ok s"
  let ?kw = "dict_update (Project_dict p)
     (filter (\<lambda>e. snd e \<noteq> PyNone) (ProjectUpdate_dict_exclude_unset u))"
  show ?thesis
  proof (cases "Project_init ?kw")
    case (Inl e)
    with ok Some show ?thesis by (simp add: update_project_def Let_def)
  next
    case (Inr q)
    have "id' q = i"
      using Project_init_update_id [OF Inr] store_ok_lookup [OF ok Some] by simp
    then have "record_ok (i, q)"
      using Project_init_bounds [OF Inr] by (simp add: record_ok_def)
    with ok Some Inr show ?thesis
      by (simp add: update_project_def Let_def store_ok_setitem)
  qed
qed

lemma store_ok_delete: "store_ok s \<Longrightarrow> store_ok (snd (delete_project i s))"
  by (simp add: delete_project_def store_ok_delitem)

lemma construct_all_bounds:
  "construct_all kws = Inr ps \<Longrightarrow> \<forall>p \<in> set ps. title_ok (title p) \<and> description_ok (description p)"
proof (induction kws arbitrary: ps)
  case Nil
  then show ?case by simp
next
  case (Cons kw kws)
  then show ?case
    by (auto split: sum.splits dest: Project_init_bounds)
qed

lemma store_ok_store_each:
  "store_ok s \<Longrightarrow> \<forall>p \<in> set ps. title_ok (title p) \<and> description_ok (description p) \<Longrightarrow>
   store_ok (store_each ps s)"
proof (induction ps arbitrary: s)
  case Nil
  then show ?case by simp
next
  case (Cons p ps)
  from Cons.prems have "record_ok (id' p, p)"
    by (simp add: record_ok_def)
  with Cons.prems(1) have "store_ok (dict_setitem (id' p) p s)"
    by (rule store_ok_setitem)
  with Cons show ?case by simp
qed

lemma store_ok_seed: "store_ok s \<Longrightarrow> store_ok (snd (seed_data r1 r2 r3 s))"
  by (auto simp: seed_data_def split: sum.splits
      intro: store_ok_store_each dest: construct_all_bounds)

lemma snd_respond: "snd (respond code render r) = snd r"
  by (simp add: respond_def split: sum.splits)

lemma store_ok_step: "store_ok s \<Longrightarrow> store_ok (step e s)"
proof (cases e)
  case (Create r b)
  assume "store_ok s"
  then show ?thesis unfolding Create
    by (cases "parse_ProjectCreate b") (simp_all add: POST_projects_def snd_respond store_ok_create)
next
  case (Put i b)
  assume "store_ok s"
  then show ?thesis unfolding Put
    by (cases "parse_ProjectUpdate b") (simp_all add: PUT_project_def snd_respond store_ok_update)
next
  case (Patch i b)
  assume "store_ok s"
  then show ?thesis unfolding Patch
    by (cases "parse_ProjectUpdate b")
       (simp_all add: PATCH_project_def PUT_project_def snd_respond store_ok_update)
next
  case (Seed r1 r2 r3)
  assume "store_ok s"
  then show ?thesis unfolding Seed by (simp add: store_ok_seed)
next
  case List
  assume "store_ok s"
  then show ?thesis unfolding List by (simp add: GET_projects_def list_projects_def)
next
  case (Get i)
  assume "store_ok s"
  then show ?thesis unfolding Get
    by (simp add: GET_project_def snd_respond get_project_def split: option.splits)
next
  case (Delete i)
  assume "store_ok s"
  then show ?thesis unfolding Delete
    by (simp add: DELETE_project_def snd_respond store_ok_delete)
qed

lemma store_ok_run: "store_ok s \<Longrightarrow> store_ok (run evs s)"
  by (induction evs arbitrary: s) (simp_all add: store_ok_step)

lemma store_ok_reachable: "store_ok (run evs [])"
  by (rule store_ok_run) (simp add: store_ok_def)

subsection \<open>Seeding\<close>

lemma construct_examples:
  "construct_all (example_kwargs r1 r2 r3) =
     Inr (seed_records (str_uuid (uuid4 r1)) (str_uuid (uuid4 r2)) (str_uuid (uuid4 r3)))"
  by (simp add: example_kwargs_def seed_records_def Project_init_def dict_get_def
      init_str_errors_def init_tags_errors_def the_str_def the_list_def
      title_ok_def description_ok_def)

lemma seed_data_empty:
  "seed_data r1 r2 r3 [] =
     (Inr (), store_each
        (seed_records (str_uuid (uuid4 r1)) (str_uuid (uuid4 r2)) (str_uuid (uuid4 r3))) [])"
  by (simp add: seed_data_def construct_examples)

lemma seed_data_nonempty: "s \<noteq> [] \<Longrightarrow> seed_data r1 r2 r3 s = (Inr (), s)"
  by (simp add: seed_data_def)

lemma store_each_nonempty: "ps \<noteq> [] \<or> s \<noteq> [] \<Longrightarrow> store_each ps s \<noteq> []"
proof (induction ps arbitrary: s)
  case Nil
  then show ?case by simp
next
  case (Cons p ps)
  have "dict_setitem (id' p) p s \<noteq> []" by (cases s) auto
  then show ?case using Cons.IH by simp
qed

lemma store_each_distinct:
  "distinct [i1, i2, i3] \<Longrightarrow>
   store_each (seed_records i1 i2 i3) [] =
     [(i1, seed_records i1 i2 i3 ! 0), (i2, seed_records i1 i2 i3 ! 1),
      (i3, seed_records i1 i2 i3 ! 2)]"
  by (auto simp: seed_records_def)


subsection \<open>Requests\<close>

lemma spec_valid_create_iff: "spec_valid_create b \<longleftrightarrow> (\<exists>c. parse_ProjectCreate b = Inr c)"
  by (cases "title_in b"; cases "description_in b"; cases "tags_in b")
     (auto simp: spec_valid_create_def parse_ProjectCreate_def Let_def create_title_errors_def
        create_description_errors_def create_tags_errors_def title_ok_def description_ok_def)

lemma spec_valid_update_iff: "spec_valid_update b \<longleftrightarrow> (\<exists>u. parse_ProjectUpdate b = Inr u)"
  unfolding parse_update_ok
  by (cases "title_in b"; cases "description_in b"; cases "tags_in b")
     (auto simp: spec_valid_update_def title_ok_def description_ok_def)

lemma parse_create_Inl: "parse_ProjectCreate b = Inl e \<Longrightarrow> \<exists>fs. e = RequestValidationError fs"
  by (auto simp: parse_ProjectCreate_def Let_def split: if_splits)

lemma parse_update_Inl: "parse_ProjectUpdate b = Inl e \<Longrightarrow> \<exists>fs. e = RequestValidationError fs"
  by (auto simp: parse_ProjectUpdate_def Let_def split: if_splits)

lemma get_project_found:
  "dict_get s i = Some p \<Longrightarrow> GET_project i s = ((200, OneProject p), s)"
  by (simp add: GET_project_def get_project_def respond_def)

lemma get_project_missing:
  "dict_get s i = None \<Longrightarrow> GET_project i s = ((404, Detail ''Project not found''), s)"
  by (simp add: GET_project_def get_project_def respond_def)

subsection \<open>Concrete runs\<close>

lemma uuid_0: "str_uuid (uuid4 0) = ''00000000-0000-4000-8000-000000000000''"
  by code_simp

lemma uuid_1: "str_uuid (uuid4 1) = ''00000000-0000-4000-8000-000000000001''"
  by code_simp

lemma uuid_2: "str_uuid (uuid4 2) = ''00000000-0000-4000-8000-000000000002''"
  by code_simp

lemma uuid_3: "str_uuid (uuid4 3) = ''00000000-0000-4000-8000-000000000003''"
  by code_simp

lemma uuid_7: "str_uuid (uuid4 7) = ''00000000-0000-4000-8000-000000000007''"
  by code_simp

lemma uuid_8: "str_uuid (uuid4 8) = ''00000000-0000-4000-8000-000000000008''"
  by code_simp

lemma run_create_7:
  "run [Create 7 \<lparr>title_in = Val ''X'', description_in = Val ''Y'', tags_in = Val [''a'']\<rparr>] [] =
     [(''00000000-0000-4000-8000-000000000007'',
       \<lparr>title = ''X'', description = ''Y'', tags = [''a''],
        id' = ''00000000-0000-4000-8000-000000000007''\<rparr>)]"
proof -
  have "parse_ProjectCreate \<lparr>title_in = Val ''X'', description_in = Val ''Y'',
          tags_in = Val [''a'']\<rparr> = Inr \<lparr>title = ''X'', description = ''Y'', tags = [''a'']\<rparr>"
    by (simp add: parse_create_ok title_ok_def description_ok_def the_val_def)
  moreover have "create_project 7 \<lparr>title = ''X'', description = ''Y'', tags = [''a'']\<rparr> [] =
      (Inr \<lparr>title = ''X'', description = ''Y'', tags = [''a''], id' = str_uuid (uuid4 7)\<rparr>,
       [(str_uuid (uuid4 7),
         \<lparr>title = ''X'', description = ''Y'', tags = [''a''], id' = str_uuid (uuid4 7)\<rparr>)])"
    using create_project_valid [of "\<lparr>title = ''X'', description = ''Y'', tags = [''a'']\<rparr>" 7 "[]"]
    by (simp add: title_ok_def description_ok_def Let_def)
  ultimately show ?thesis
    by (simp add: POST_projects_def respond_def uuid_7)
qed

lemma run_create_7_8:
  "run [Create 7 \<lparr>title_in = Val ''X'', description_in = Val ''Y'', tags_in = Val [''a'']\<rparr>,
        Create 8 \<lparr>title_in = Val ''X'', description_in = Val ''Y'', tags_in = Val [''a'']\<rparr>] [] =
     [(''00000000-0000-4000-8000-000000000007'',
       \<lparr>title = ''X'', description = ''Y'', tags = [''a''],
        id' = ''00000000-0000-4000-8000-000000000007''\<rparr>),
      (''00000000-0000-4000-8000-000000000008'',
       \<lparr>title = ''X'', description = ''Y'', tags = [''a''],
        id' = ''00000000-0000-4000-8000-000000000008''\<rparr>)]"
proof -
  have "parse_ProjectCreate \<lparr>title_in = Val ''X'', description_in = Val ''Y'',
          tags_in = Val [''a'']\<rparr> = Inr \<lparr>title = ''X'', description = ''Y'', tags = [''a'']\<rparr>"
    by (simp add: parse_create_ok title_ok_def description_ok_def the_val_def)
  moreover have "\<And>r s. create_project r \<lparr>title = ''X'', description = ''Y'', tags = [''a'']\<rparr> s =
      (Inr \<lparr>title = ''X'', description = ''Y'', tags = [''a''], id' = str_uuid (uuid4 r)\<rparr>,
       dict_setitem (str_uuid (uuid4 r))
         \<lparr>title = ''X'', description = ''Y'', tags = [''a''], id' = str_uuid (uuid4 r)\<rparr> s)"
    using create_project_valid [of "\<lparr>title = ''X'', description = ''Y'', tags = [''a'']\<rparr>"]
    by (simp add: title_ok_def description_ok_def Let_def)
  ultimately show ?thesis
    by (simp add: POST_projects_def respond_def uuid_7 uuid_8)
qed

subsection \<open>Updates\<close>

lemma merged_title_only:
  "merged P \<lparr>title_in = Val T2, description_in = Unset, tags_in = Unset\<rparr> = P\<lparr>title := T2\<rparr>"
  by (simp add: merged_def the_val_def)

lemma merged_fields:
  "merged P b = \<lparr>title = (case title_in b of Val t \<Rightarrow> t | _ \<Rightarrow> title P),
                 description = (case description_in b of Val d \<Rightarrow> d | _ \<Rightarrow> description P),
                 tags = (case tags_in b of Val ts \<Rightarrow> ts | _ \<Rightarrow> tags P), id' = id' P\<rparr>"
  by (simp add: merged_def the_val_def)

lemma put_project_found:
  assumes "store_ok s" "dict_get s i = Some P" "spec_valid_update b"
  shows "PUT_project i b s = ((200, OneProject (merged P b)), dict_setitem i (merged P b) s)"
proof -
  from assms(3) obtain u where u: "parse_ProjectUpdate b = Inr u"
    using spec_valid_update_iff by blast
  have "update_project i u s = (Inr (merged P b), dict_setitem i (merged P b) s)"
    using store_ok_lookup [OF assms(1,2)] update_project_found [OF assms(2) u] by simp
  with u show ?thesis
    by (simp add: PUT_project_def respond_def)
qed

lemma get_after_setitem: "GET_project i (dict_setitem i p s) = ((200, OneProject p), dict_setitem i p s)"
  by (rule get_project_found) (simp add: dict_get_def map_of_setitem)

subsection \<open>Seeding with colliding identifiers\<close>

text \<open>When the three draws coincide, each example overwrites the one before.\<close>

lemma seed_data_collision:
  "fst (list_projects (snd (seed_data r r r []))) =
     [\<lparr>title = ''Shadow Commerce'',
       description = ''Performance-first storefront with snappy filters and crisp accents.'',
       tags = [''Performance'', ''UI/UX'', ''E-commerce''], id' = str_uuid (uuid4 r)\<rparr>]"
  by (simp add: seed_data_empty seed_records_def list_projects_def dict_values_def)

section \<open>Properties of the service\<close>

text \<open>
  Claim C1. A creation body that passes validation (a title of 1 to 120 characters, a
  description of 1 to 2000 characters, tags a list of strings or left out) is answered with
  status 201 and the new record; the record is inserted under the generated identifier, which
  is the 36-character string of the UUID and so is not empty; and a \<open>GET\<close> of that
  identifier right after returns the same record, whose title, description and tags are the
  payload's.
\<close>

theorem create_then_get:
  assumes "title_in b = Val t" "1 \<le> length t" "length t \<le> 120"
    and "description_in b = Val d" "1 \<le> length d" "length d \<le> 2000"
    and "tags_in b = Val ts \<or> tags_in b = Unset \<and> ts = []"
  shows "let p = \<lparr>title = t, description = d, tags = ts, id' = str_uuid (uuid4 r)\<rparr>;
             s' = dict_setitem (id' p) p s
         in POST_projects r b s = ((201, OneProject p), s') \<and>
            GET_project (id' p) s' = ((200, OneProject p), s') \<and>
            id' p \<noteq> [] \<and> length (id' p) = 36"
proof -
  let ?c = "\<lparr>title = t, description = d, tags = ts\<rparr>"
  let ?p = "\<lparr>title = t, description = d, tags = ts, id' = str_uuid (uuid4 r)\<rparr>"
  have parse: "parse_ProjectCreate b = Inr ?c"
    using assms by (auto simp: parse_create_ok title_ok_def description_ok_def the_val_def)
  have "create_project r ?c s = (Inr ?p, dict_setitem (str_uuid (uuid4 r)) ?p s)"
    using assms(2,3,5,6) create_project_valid [of ?c r s]
    by (simp add: title_ok_def description_ok_def Let_def)
  with parse have post:
    "POST_projects r b s = ((201, OneProject ?p), dict_setitem (str_uuid (uuid4 r)) ?p s)"
    by (simp add: POST_projects_def respond_def)
  have "dict_get (dict_setitem (str_uuid (uuid4 r)) ?p s) (str_uuid (uuid4 r)) = Some ?p"
    by (simp add: dict_get_def map_of_setitem)
  then have get: "GET_project (str_uuid (uuid4 r)) (dict_setitem (str_uuid (uuid4 r)) ?p s) =
      ((200, OneProject ?p), dict_setitem (str_uuid (uuid4 r)) ?p s)"
    by (rule get_project_found)
  show ?thesis
    using post get by (simp add: Let_def str_uuid_nonempty length_str_uuid)
qed

theorem create_then_get_witness:
  "POST_projects 7 \<lparr>title_in = Val ''X'', description_in = Val ''Y'', tags_in = Val [''a'']\<rparr> [] =
     ((201, OneProject \<lparr>title = ''X'', description = ''Y'', tags = [''a''],
                         id' = ''00000000-0000-4000-8000-000000000007''\<rparr>),
      [(''00000000-0000-4000-8000-000000000007'',
        \<lparr>title = ''X'', description = ''Y'', tags = [''a''],
         id' = ''00000000-0000-4000-8000-000000000007''\<rparr>)])"
proof -
  have u: "str_uuid (uuid4 7) = ''00000000-0000-4000-8000-000000000007''"
    by code_simp
  show ?thesis
    using create_then_get [of "\<lparr>title_in = Val ''X'', description_in = Val ''Y'',
        tags_in = Val [''a'']\<rparr>" "''X''" "''Y''" "[''a'']" 7 "[]"]
    by (simp add: Let_def u)
qed

text \<open>
  Claim C2. For an identifier that is not in the store, \<open>get_project\<close>,
  \<open>update_project\<close> (with any payload) and \<open>delete_project\<close> each raise the 404 error
  with detail \<open>Project not found\<close> and leave the store as it was; the routes answer with
  status 404 and that detail.
\<close>

theorem missing_id_not_found:
  assumes "\<not> dict_contains i s"
  shows "get_project i s = (Inl (HTTPException 404 ''Project not found''), s) \<and>
         update_project i u s = (Inl (HTTPException 404 ''Project not found''), s) \<and>
         delete_project i s = (Inl (HTTPException 404 ''Project not found''), s) \<and>
         GET_project i s = ((404, Detail ''Project not found''), s) \<and>
         DELETE_project i s = ((404, Detail ''Project not found''), s) \<and>
         respond 200 OneProject (update_project i u s) = ((404, Detail ''Project not found''), s)"
proof -
  from assms have none: "dict_get s i = None"
    by (simp add: contains_iff_get)
  then show ?thesis using assms
    by (simp add: get_project_def update_project_def delete_project_def GET_project_def
        DELETE_project_def respond_def)
qed

theorem missing_id_not_found_witness:
  "get_project ''nope'' [] = (Inl (HTTPException 404 ''Project not found''), []) \<and>
   delete_project ''nope'' [] = (Inl (HTTPException 404 ''Project not found''), []) \<and>
   update_project ''nope''
     \<lparr>ProjectUpdate.title = Some ''T'', description = None, tags = None,
      fields_set = [''title'']\<rparr> [] = (Inl (HTTPException 404 ''Project not found''), [])"
  using missing_id_not_found [of "''nope''" "[]"
      "\<lparr>ProjectUpdate.title = Some ''T'', description = None, tags = None,
        fields_set = [''title'']\<rparr>"]
  by (simp add: dict_contains_def)

text \<open>
  Claim C3. In every reachable store, for a stored project \<open>P\<close> and a valid title
  \<open>T2\<close>, an update whose body holds only the title \<open>T2\<close> is answered with status 200
  and the record \<open>P\<close> with its title replaced by \<open>T2\<close>; that record is stored under
  the same identifier, and its id, description and tags are those of \<open>P\<close>.
\<close>

theorem update_title_only:
  assumes "dict_get (run evs []) i = Some P" "1 \<le> length T2" "length T2 \<le> 120"
  shows "let b = \<lparr>title_in = Val T2, description_in = Unset, tags_in = Unset\<rparr>;
             P' = P\<lparr>title := T2\<rparr>;
             s' = dict_setitem i P' (run evs [])
         in PUT_project i b (run evs []) = ((200, OneProject P'), s') \<and>
            PATCH_project i b (run evs []) = ((200, OneProject P'), s') \<and>
            GET_project i s' = ((200, OneProject P'), s') \<and>
            title P' = T2 \<and> id' P' = id' P \<and> description P' = description P \<and>
            tags P' = tags P"
proof -
  let ?b = "\<lparr>title_in = Val T2, description_in = Unset, tags_in = Unset\<rparr>"
  have "spec_valid_update ?b"
    using assms(2,3) by (simp add: spec_valid_update_def)
  then have "PUT_project i ?b (run evs []) =
      ((200, OneProject (merged P ?b)), dict_setitem i (merged P ?b) (run evs []))"
    using put_project_found [OF store_ok_reachable assms(1)] by blast
  then show ?thesis
    by (simp add: Let_def merged_title_only PATCH_project_def get_after_setitem)
qed

theorem update_title_only_witness:
  "PUT_project ''00000000-0000-4000-8000-000000000007''
     \<lparr>title_in = Val ''T2'', description_in = Unset, tags_in = Unset\<rparr>
     (run [Create 7 \<lparr>title_in = Val ''X'', description_in = Val ''Y'', tags_in = Val [''a'']\<rparr>] []) =
   ((200, OneProject \<lparr>title = ''T2'', description = ''Y'', tags = [''a''],
                       id' = ''00000000-0000-4000-8000-000000000007''\<rparr>),
    [(''00000000-0000-4000-8000-000000000007'',
      \<lparr>title = ''T2'', description = ''Y'', tags = [''a''],
       id' = ''00000000-0000-4000-8000-000000000007''\<rparr>)])"
  using update_title_only [of
      "[Create 7 \<lparr>title_in = Val ''X'', description_in = Val ''Y'', tags_in = Val [''a'']\<rparr>]"
      "''00000000-0000-4000-8000-000000000007''"
      "\<lparr>title = ''X'', description = ''Y'', tags = [''a''],
        id' = ''00000000-0000-4000-8000-000000000007''\<rparr>" "''T2''", unfolded run_create_7]
  unfolding run_create_7 by (simp add: dict_get_def Let_def)

text \<open>
  Claim C4. In every reachable store, for a stored project and an update body that
  passes validation, each of title, description and tags that is absent from the body or
  null keeps its stored value, a field given with a value is overwritten by it, the id is
  kept, and the merged record is stored and returned with status 200.
\<close>

theorem update_merges:
  assumes "dict_get (run evs []) i = Some P" "spec_valid_update b"
  shows "let q = \<lparr>title = (case title_in b of Val t \<Rightarrow> t | _ \<Rightarrow> title P),
                   description = (case description_in b of Val d \<Rightarrow> d | _ \<Rightarrow> description P),
                   tags = (case tags_in b of Val ts \<Rightarrow> ts | _ \<Rightarrow> tags P),
                   id' = id' P\<rparr>;
             s' = dict_setitem i q (run evs [])
         in PUT_project i b (run evs []) = ((200, OneProject q), s') \<and>
            PATCH_project i b (run evs []) = ((200, OneProject q), s') \<and>
            dict_get s' i = Some q"
  using put_project_found [OF store_ok_reachable assms]
  by (simp add: Let_def merged_fields PATCH_project_def dict_get_def map_of_setitem)

theorem update_merges_witness:
  "PUT_project ''00000000-0000-4000-8000-000000000007''
     \<lparr>title_in = Null, description_in = Val ''Z'', tags_in = Unset\<rparr>
     (run [Create 7 \<lparr>title_in = Val ''X'', description_in = Val ''Y'', tags_in = Val [''a'']\<rparr>] []) =
   ((200, OneProject \<lparr>title = ''X'', description = ''Z'', tags = [''a''],
                       id' = ''00000000-0000-4000-8000-000000000007''\<rparr>),
    [(''00000000-0000-4000-8000-000000000007'',
      \<lparr>title = ''X'', description = ''Z'', tags = [''a''],
       id' = ''00000000-0000-4000-8000-000000000007''\<rparr>)])"
  using update_merges [of
      "[Create 7 \<lparr>title_in = Val ''X'', description_in = Val ''Y'', tags_in = Val [''a'']\<rparr>]"
      "''00000000-0000-4000-8000-000000000007''"
      "\<lparr>title = ''X'', description = ''Y'', tags = [''a''],
        id' = ''00000000-0000-4000-8000-000000000007''\<rparr>"
      "\<lparr>title_in = Null, description_in = Val ''Z'', tags_in = Unset\<rparr>",
      unfolded run_create_7]
  unfolding run_create_7 by (simp add: dict_get_def Let_def spec_valid_update_def)

text \<open>
  Claim C5. \<open>seed_data\<close> does nothing on a store that is not empty. On the empty
  store, when the three identifiers it draws are pairwise different, it inserts exactly the
  three fixed example records, each under its own identifier, so that after startup the
  list of projects is those three records. Calling \<open>seed_data\<close> once more after startup
  leaves the store unchanged.
\<close>

theorem seed_data_idempotent:
  "(s \<noteq> [] \<longrightarrow> seed_data r1 r2 r3 s = (Inr (), s)) \<and>
   (distinct [str_uuid (uuid4 r1), str_uuid (uuid4 r2), str_uuid (uuid4 r3)] \<longrightarrow>
      (let ps = seed_records (str_uuid (uuid4 r1)) (str_uuid (uuid4 r2)) (str_uuid (uuid4 r3))
       in seed_data r1 r2 r3 [] = (Inr (), map (\<lambda>p. (id' p, p)) ps) \<and>
          fst (list_projects (run [Seed r1 r2 r3] [])) = ps \<and>
          length (fst (list_projects (run [Seed r1 r2 r3] []))) = 3)) \<and>
   seed_data r4 r5 r6 (run [Seed r1 r2 r3] []) = (Inr (), run [Seed r1 r2 r3] []) \<and>
   run [Seed r1 r2 r3, Seed r4 r5 r6] [] = run [Seed r1 r2 r3] []"
proof -
  let ?ps = "seed_records (str_uuid (uuid4 r1)) (str_uuid (uuid4 r2)) (str_uuid (uuid4 r3))"
  have a: "s \<noteq> [] \<longrightarrow> seed_data r1 r2 r3 s = (Inr (), s)"
    by (simp add: seed_data_nonempty)
  have run1: "run [Seed r1 r2 r3] [] = store_each ?ps []"
    by (simp add: seed_data_empty)
  have b: "seed_data r1 r2 r3 [] = (Inr (), map (\<lambda>p. (id' p, p)) ?ps) \<and>
           fst (list_projects (run [Seed r1 r2 r3] [])) = ?ps \<and>
           length (fst (list_projects (run [Seed r1 r2 r3] []))) = 3"
    if d: "distinct [str_uuid (uuid4 r1), str_uuid (uuid4 r2), str_uuid (uuid4 r3)]"
  proof -
    have "store_each ?ps [] = map (\<lambda>p. (id' p, p)) ?ps"
      using store_each_distinct [OF d] by (simp add: seed_records_def)
    then show ?thesis
      unfolding run1
      by (simp add: seed_data_empty list_projects_def dict_values_def comp_def)
         (simp add: seed_records_def)
  qed
  have "?ps \<noteq> []" by (simp add: seed_records_def)
  then have "store_each ?ps [] \<noteq> []"
    using store_each_nonempty [of ?ps "[]"] by simp
  then have c: "seed_data r4 r5 r6 (run [Seed r1 r2 r3] []) = (Inr (), run [Seed r1 r2 r3] [])"
    unfolding run1 by (rule seed_data_nonempty)
  then have e: "run [Seed r1 r2 r3, Seed r4 r5 r6] [] = run [Seed r1 r2 r3] []"
    by simp
  from a b c e show ?thesis unfolding Let_def by blast
qed

theorem seed_data_idempotent_witness:
  "distinct [str_uuid (uuid4 1), str_uuid (uuid4 2), str_uuid (uuid4 3)] \<and>
   fst (list_projects (run [Seed 1 2 3] [])) =
     [\<lparr>title = ''Midnight Dashboard'',
       description = ''Clean analytics hub with high-contrast dark UI and buttery transitions.'',
       tags = [''React'', ''Framer Motion'', ''A11y''],
       id' = ''00000000-0000-4000-8000-000000000001''\<rparr>,
      \<lparr>title = ''Aurora Docs'',
       description = ''Documentation site with focus-first typography and instant search.'',
       tags = [''Content'', ''Search'', ''Dark Mode''],
       id' = ''00000000-0000-4000-8000-000000000002''\<rparr>,
      \<lparr>title = ''Shadow Commerce'',
       description = ''Performance-first storefront with snappy filters and crisp accents.'',
       tags = [''Performance'', ''UI/UX'', ''E-commerce''],
       id' = ''00000000-0000-4000-8000-000000000003''\<rparr>] \<and>
   run [Seed 1 2 3, Seed 7 7 7] [] = run [Seed 1 2 3] [] \<and>
   [(''k'', \<lparr>title = ''X'', description = ''Y'', tags = [], id' = ''k''\<rparr>)] \<noteq> [] \<and>
   seed_data 1 2 3 [(''k'', \<lparr>title = ''X'', description = ''Y'', tags = [], id' = ''k''\<rparr>)] =
     (Inr (), [(''k'', \<lparr>title = ''X'', description = ''Y'', tags = [], id' = ''k''\<rparr>)])"
proof -
  have d: "distinct [str_uuid (uuid4 1), str_uuid (uuid4 2), str_uuid (uuid4 3)]"
    by (simp add: uuid_1 uuid_2 uuid_3)
  from seed_data_idempotent
      [of "[(''k'', \<lparr>title = ''X'', description = ''Y'', tags = [], id' = ''k''\<rparr>)]" 1 2 3 7 7 7]
  have "seed_data 1 2 3 [(''k'', \<lparr>title = ''X'', description = ''Y'', tags = [], id' = ''k''\<rparr>)] =
          (Inr (), [(''k'', \<lparr>title = ''X'', description = ''Y'', tags = [], id' = ''k''\<rparr>)])"
    and "fst (list_projects (run [Seed 1 2 3] [])) =
          seed_records (str_uuid (uuid4 1)) (str_uuid (uuid4 2)) (str_uuid (uuid4 3))"
    and "run [Seed 1 2 3, Seed 7 7 7] [] = run [Seed 1 2 3] []"
    using d by (simp_all add: Let_def del: run.simps step.simps distinct.simps)
  with d show ?thesis
    by (simp add: seed_records_def uuid_1 uuid_2 uuid_3 del: run.simps step.simps distinct.simps)
qed

text \<open>
  Without the condition on the draws the three records are not guaranteed: \<open>seed_data\<close>
  never compares the identifiers, and when all three draws are zero the store after
  startup holds one record, the last example, so the list does not have three projects.
\<close>

theorem seed_data_three_counterexample:
  "fst (list_projects (run [Seed 0 0 0] [])) =
     [\<lparr>title = ''Shadow Commerce'',
       description = ''Performance-first storefront with snappy filters and crisp accents.'',
       tags = [''Performance'', ''UI/UX'', ''E-commerce''],
       id' = ''00000000-0000-4000-8000-000000000000''\<rparr>] \<and>
   length (fst (list_projects (run [Seed 0 0 0] []))) \<noteq> 3"
proof -
  have "run [Seed 0 0 0] [] = snd (seed_data 0 0 0 [])"
    by simp
  then show ?thesis
    using seed_data_collision [of 0] by (simp add: uuid_0 del: run.simps step.simps)
qed

text \<open>
  Claim C6. A creation body that violates the validation rules (in particular one whose
  title is empty or longer than 120 characters) is answered with status 422, the store is
  not changed, and the list of projects afterwards is the list before. The same holds for
  an update body that violates the rules for updates.
\<close>

theorem invalid_body_rejected:
  "(\<not> spec_valid_create b \<longrightarrow>
      fst (fst (POST_projects r b s)) = 422 \<and> snd (POST_projects r b s) = s \<and>
      GET_projects (snd (POST_projects r b s)) = GET_projects s) \<and>
   (\<not> spec_valid_update b \<longrightarrow>
      fst (fst (PUT_project i b s)) = 422 \<and> snd (PUT_project i b s) = s \<and>
      fst (fst (PATCH_project i b s)) = 422 \<and> snd (PATCH_project i b s) = s)"
proof (intro conjI impI)
  assume "\<not> spec_valid_create b"
  then obtain e where e: "parse_ProjectCreate b = Inl e"
    unfolding spec_valid_create_iff by (cases "parse_ProjectCreate b") auto
  then obtain fs where "e = RequestValidationError fs"
    using parse_create_Inl by blast
  with e have post: "POST_projects r b s = ((422, FieldErrors fs), s)"
    by (simp add: POST_projects_def)
  then show "fst (fst (POST_projects r b s)) = 422" "snd (POST_projects r b s) = s"
    "GET_projects (snd (POST_projects r b s)) = GET_projects s"
    by simp_all
next
  assume "\<not> spec_valid_update b"
  then obtain e where e: "parse_ProjectUpdate b = Inl e"
    unfolding spec_valid_update_iff by (cases "parse_ProjectUpdate b") auto
  then obtain fs where "e = RequestValidationError fs"
    using parse_update_Inl by blast
  with e have put: "PUT_project i b s = ((422, FieldErrors fs), s)"
    by (simp add: PUT_project_def)
  then show "fst (fst (PUT_project i b s)) = 422" "snd (PUT_project i b s) = s"
    "fst (fst (PATCH_project i b s)) = 422" "snd (PATCH_project i b s) = s"
    by (simp_all add: PATCH_project_def)
qed

theorem invalid_body_rejected_witness:
  "\<not> spec_valid_create \<lparr>title_in = Val [], description_in = Val ''Y'', tags_in = Unset\<rparr> \<and>
   \<not> spec_valid_update \<lparr>title_in = Val [], description_in = Val ''Y'', tags_in = Unset\<rparr> \<and>
   fst (fst (POST_projects 7 \<lparr>title_in = Val [], description_in = Val ''Y'', tags_in = Unset\<rparr> []))
     = 422 \<and>
   GET_projects (snd (POST_projects 7
      \<lparr>title_in = Val [], description_in = Val ''Y'', tags_in = Unset\<rparr> [])) = ((200, Projects []), []) \<and>
   fst (fst (PUT_project ''k'' \<lparr>title_in = Val [], description_in = Val ''Y'', tags_in = Unset\<rparr> []))
     = 422"
  using invalid_body_rejected [of "\<lparr>title_in = Val [], description_in = Val ''Y'', tags_in = Unset\<rparr>"
      7 "[]" "''k''"]
  by (simp add: spec_valid_create_def spec_valid_update_def GET_projects_def list_projects_def
      dict_values_def)

text \<open>
  Claim C7. In every reachable store, deleting an identifier that is present is
  answered with status 204 and an empty body; afterwards the list of projects is the old
  list without the records of that identifier, the deleted record is not in it, and a
  \<open>GET\<close> of the identifier is answered with 404.
\<close>

theorem delete_removes:
  assumes "dict_get (run evs []) i = Some P"
  shows "let s' = dict_delitem i (run evs [])
         in DELETE_project i (run evs []) = ((204, Empty), s') \<and>
            fst (list_projects s') =
              filter (\<lambda>q. id' q \<noteq> i) (fst (list_projects (run evs []))) \<and>
            P \<notin> set (fst (list_projects s')) \<and>
            \<not> dict_contains i s' \<and>
            GET_project i s' = ((404, Detail ''Project not found''), s')"
proof -
  let ?s = "run evs []"
  have ok: "store_ok ?s" by (rule store_ok_reachable)
  from assms have "dict_contains i ?s"
    by (simp add: contains_iff_get)
  then have del: "DELETE_project i ?s = ((204, Empty), dict_delitem i ?s)"
    by (simp add: DELETE_project_def delete_project_def respond_def)
  have keys: "\<forall>e \<in> set ?s. id' (snd e) = fst e"
    using ok by (simp add: store_ok_def list_all_iff record_ok_def)
  then have "map snd (filter (\<lambda>e. fst e \<noteq> i) ?s) = filter (\<lambda>q. id' q \<noteq> i) (map snd ?s)"
    by (simp add: filter_map comp_def cong: filter_cong)
  then have lst: "fst (list_projects (dict_delitem i ?s)) =
      filter (\<lambda>q. id' q \<noteq> i) (fst (list_projects ?s))"
    by (simp add: list_projects_def dict_values_def delitem_filter)
  have "id' P = i"
    using store_ok_lookup [OF ok assms] by simp
  with lst have notin: "P \<notin> set (fst (list_projects (dict_delitem i ?s)))"
    by simp
  have none: "dict_get (dict_delitem i ?s) i = None"
    by (simp add: dict_get_def map_of_delitem)
  then have "\<not> dict_contains i (dict_delitem i ?s)"
    by (simp add: contains_iff_get)
  with del lst notin get_project_missing [OF none] show ?thesis
    by (simp add: Let_def)
qed

theorem delete_removes_witness:
  "DELETE_project ''00000000-0000-4000-8000-000000000007''
     (run [Create 7 \<lparr>title_in = Val ''X'', description_in = Val ''Y'', tags_in = Val [''a'']\<rparr>,
           Create 8 \<lparr>title_in = Val ''X'', description_in = Val ''Y'', tags_in = Val [''a'']\<rparr>] []) =
   ((204, Empty),
    [(''00000000-0000-4000-8000-000000000008'',
       \<lparr>title = ''X'', description = ''Y'', tags = [''a''],
        id' = ''00000000-0000-4000-8000-000000000008''\<rparr>)])"
  using delete_removes [of
      "[Create 7 \<lparr>title_in = Val ''X'', description_in = Val ''Y'', tags_in = Val [''a'']\<rparr>,
        Create 8 \<lparr>title_in = Val ''X'', description_in = Val ''Y'', tags_in = Val [''a'']\<rparr>]"
      "''00000000-0000-4000-8000-000000000007''"
      "\<lparr>title = ''X'', description = ''Y'', tags = [''a''],
        id' = ''00000000-0000-4000-8000-000000000007''\<rparr>", unfolded run_create_7_8]
  unfolding run_create_7_8 by (simp add: dict_get_def Let_def)

text \<open>
  Claim C8. Every record in a reachable store (after any sequence of seeding, create,
  update, delete and read requests, with any bodies) has a title of 1 to 120 characters and
  a description of 1 to 2000 characters.
\<close>

theorem stored_bounds:
  assumes "p \<in> set (fst (list_projects (run evs [])))"
  shows "1 \<le> length (title p) \<and> length (title p) \<le> 120 \<and>
         1 \<le> length (description p) \<and> length (description p) \<le> 2000"
proof -
  from assms obtain k where "(k, p) \<in> set (run evs [])"
    by (auto simp: list_projects_def dict_values_def)
  then have "record_ok (k, p)"
    using store_ok_reachable [of evs] by (simp add: store_ok_def list_all_iff)
  then show ?thesis
    by (simp add: record_ok_def title_ok_def description_ok_def)
qed

theorem stored_bounds_witness:
  "\<lparr>title = ''X'', description = ''Y'', tags = [''a''],
    id' = ''00000000-0000-4000-8000-000000000007''\<rparr>
     \<in> set (fst (list_projects
          (run [Create 7 \<lparr>title_in = Val ''X'', description_in = Val ''Y'',
                          tags_in = Val [''a'']\<rparr>] []))) \<and>
   length ''X'' \<le> 120 \<and> length ''Y'' \<le> 2000"
  using stored_bounds [of
      "\<lparr>title = ''X'', description = ''Y'', tags = [''a''],
        id' = ''00000000-0000-4000-8000-000000000007''\<rparr>"
      "[Create 7 \<lparr>title_in = Val ''X'', description_in = Val ''Y'', tags_in = Val [''a'']\<rparr>]",
      unfolded run_create_7]
  unfolding run_create_7 by (simp add: list_projects_def dict_values_def)

text \<open>
  Claim C9. In every reachable store each record is stored under its own id. An update
  returns a record with the id of the stored one, and a creation returns a record whose id
  is the generated identifier and stores it under that identifier.
\<close>

theorem id_is_key:
  "((k, p) \<in> set (run evs []) \<longrightarrow> id' p = k) \<and>
   (dict_get s i = Some P \<and> fst (update_project i u s) = Inr q \<longrightarrow> id' q = id' P) \<and>
   (fst (create_project r c s) = Inr q \<longrightarrow>
      id' q = str_uuid (uuid4 r) \<and> dict_get (snd (create_project r c s)) (id' q) = Some q)"
proof -
  have 1: "id' p = k" if "(k, p) \<in> set (run evs [])"
  proof -
    from that have "record_ok (k, p)"
      using store_ok_reachable [of evs] by (simp add: store_ok_def list_all_iff)
    then show ?thesis by (simp add: record_ok_def)
  qed
  have 2: "id' q = id' P" if "dict_get s i = Some P \<and> fst (update_project i u s) = Inr q"
    using that
    by (auto simp: update_project_def Let_def split: sum.splits dest: Project_init_update_id)
  have 3: "id' q = str_uuid (uuid4 r) \<and>
           dict_get (snd (create_project r c s)) (id' q) = Some q"
    if "fst (create_project r c s) = Inr q"
  proof -
    from that
    have init: "Project_init ((''id'', PyStr (str_uuid (uuid4 r))) # ProjectBase_dict c) = Inr q"
      by (auto simp: create_project_def Let_def split: sum.splits)
    then show ?thesis
      using Project_init_create_id [OF init]
      by (simp add: create_project_def Let_def dict_get_def map_of_setitem)
  qed
  from 1 2 3 show ?thesis by blast
qed

theorem id_is_key_witness:
  "(''00000000-0000-4000-8000-000000000007'',
    \<lparr>title = ''X'', description = ''Y'', tags = [''a''],
     id' = ''00000000-0000-4000-8000-000000000007''\<rparr>)
     \<in> set (run [Create 7 \<lparr>title_in = Val ''X'', description_in = Val ''Y'',
                            tags_in = Val [''a'']\<rparr>] []) \<and>
   fst (create_project 7 \<lparr>title = ''X'', description = ''Y'', tags = [''a'']\<rparr> []) =
     Inr \<lparr>title = ''X'', description = ''Y'', tags = [''a''],
          id' = ''00000000-0000-4000-8000-000000000007''\<rparr> \<and>
   fst (update_project ''k''
          \<lparr>ProjectUpdate.title = Some ''T'', description = None, tags = None,
           fields_set = [''title'']\<rparr>
          [(''k'', \<lparr>title = ''X'', description = ''Y'', tags = [], id' = ''k''\<rparr>)]) =
     Inr \<lparr>title = ''T'', description = ''Y'', tags = [], id' = ''k''\<rparr>"
proof -
  have c: "fst (create_project 7 \<lparr>title = ''X'', description = ''Y'', tags = [''a'']\<rparr> []) =
     Inr \<lparr>title = ''X'', description = ''Y'', tags = [''a''],
          id' = ''00000000-0000-4000-8000-000000000007''\<rparr>"
    using create_project_valid [of "\<lparr>title = ''X'', description = ''Y'', tags = [''a'']\<rparr>" 7 "[]"]
    by (simp add: title_ok_def description_ok_def Let_def uuid_7)
  have u: "fst (update_project ''k''
          \<lparr>ProjectUpdate.title = Some ''T'', description = None, tags = None,
           fields_set = [''title'']\<rparr>
          [(''k'', \<lparr>title = ''X'', description = ''Y'', tags = [], id' = ''k''\<rparr>)]) =
     Inr \<lparr>title = ''T'', description = ''Y'', tags = [], id' = ''k''\<rparr>"
    by (simp add: update_project_def dict_get_def Let_def Project_dict_def
        ProjectUpdate_dict_exclude_unset_def str_or_None_def list_or_None_def Project_init_def
        init_str_errors_def init_tags_errors_def the_str_def the_list_def title_ok_def
        description_ok_def)
  have m: "(''00000000-0000-4000-8000-000000000007'',
    \<lparr>title = ''X'', description = ''Y'', tags = [''a''],
     id' = ''00000000-0000-4000-8000-000000000007''\<rparr>)
     \<in> set (run [Create 7 \<lparr>title_in = Val ''X'', description_in = Val ''Y'',
                            tags_in = Val [''a'']\<rparr>] [])"
    unfolding run_create_7 by simp
  from id_is_key [of "''00000000-0000-4000-8000-000000000007''"
      "\<lparr>title = ''X'', description = ''Y'', tags = [''a''],
        id' = ''00000000-0000-4000-8000-000000000007''\<rparr>"
      "[Create 7 \<lparr>title_in = Val ''X'', description_in = Val ''Y'', tags_in = Val [''a'']\<rparr>]"
      "[(''k'', \<lparr>title = ''X'', description = ''Y'', tags = [], id' = ''k''\<rparr>)]" "''k''"
      "\<lparr>title = ''X'', description = ''Y'', tags = [], id' = ''k''\<rparr>"
      "\<lparr>ProjectUpdate.title = Some ''T'', description = None, tags = None,
        fields_set = [''title'']\<rparr>"
      "\<lparr>title = ''T'', description = ''Y'', tags = [], id' = ''k''\<rparr>"]
  have "id' \<lparr>title = ''T'', description = ''Y'', tags = [], id' = ''k''\<rparr> =
        id' \<lparr>title = ''X'', description = ''Y'', tags = [], id' = ''k''\<rparr>"
    using u by (simp add: dict_get_def del: run.simps)
  with c u m show ?thesis by simp
qed

text \<open>
  Claim C10. Listing and reading leave the store as it is. Creating, updating and
  deleting change at most the entry of the affected identifier: the other entries of the
  store, in their order, are the same before and after, and so is every lookup of another
  key.
\<close>

theorem frame:
  "snd (list_projects s) = s \<and> snd (get_project i s) = s \<and>
   snd (GET_projects s) = s \<and> snd (GET_project i s) = s \<and>
   filter (\<lambda>e. fst e \<noteq> str_uuid (uuid4 r)) (snd (create_project r c s)) =
     filter (\<lambda>e. fst e \<noteq> str_uuid (uuid4 r)) s \<and>
   filter (\<lambda>e. fst e \<noteq> i) (snd (update_project i u s)) = filter (\<lambda>e. fst e \<noteq> i) s \<and>
   filter (\<lambda>e. fst e \<noteq> i) (snd (delete_project i s)) = filter (\<lambda>e. fst e \<noteq> i) s \<and>
   (k \<noteq> str_uuid (uuid4 r) \<longrightarrow> dict_get (snd (create_project r c s)) k = dict_get s k) \<and>
   (k \<noteq> i \<longrightarrow> dict_get (snd (update_project i u s)) k = dict_get s k) \<and>
   (k \<noteq> i \<longrightarrow> dict_get (snd (delete_project i s)) k = dict_get s k)"
proof -
  have 1: "snd (list_projects s) = s" "snd (GET_projects s) = s"
    by (simp_all add: list_projects_def GET_projects_def)
  have 2: "snd (get_project i s) = s" "snd (GET_project i s) = s"
    by (simp_all add: get_project_def GET_project_def snd_respond split: option.splits)
  have c: "snd (create_project r c s) = s \<or>
           (\<exists>p. snd (create_project r c s) = dict_setitem (str_uuid (uuid4 r)) p s)"
    by (auto simp: create_project_def Let_def split: sum.splits)
  have u: "snd (update_project i u s) = s \<or> (\<exists>p. snd (update_project i u s) = dict_setitem i p s)"
    by (auto simp: update_project_def Let_def split: sum.splits option.splits)
  have d: "snd (delete_project i s) = s \<or> snd (delete_project i s) = dict_delitem i s"
    by (auto simp: delete_project_def)
  have 3: "filter (\<lambda>e. fst e \<noteq> str_uuid (uuid4 r)) (snd (create_project r c s)) =
     filter (\<lambda>e. fst e \<noteq> str_uuid (uuid4 r)) s"
    using c by (auto simp: filter_setitem)
  have 4: "filter (\<lambda>e. fst e \<noteq> i) (snd (update_project i u s)) = filter (\<lambda>e. fst e \<noteq> i) s"
    using u by (auto simp: filter_setitem)
  have 5: "filter (\<lambda>e. fst e \<noteq> i) (snd (delete_project i s)) = filter (\<lambda>e. fst e \<noteq> i) s"
    using d by (auto simp: filter_delitem)
  have 6: "k \<noteq> str_uuid (uuid4 r) \<longrightarrow> dict_get (snd (create_project r c s)) k = dict_get s k"
    using c by (auto simp: dict_get_def map_of_setitem)
  have 7: "k \<noteq> i \<longrightarrow> dict_get (snd (update_project i u s)) k = dict_get s k"
    using u by (auto simp: dict_get_def map_of_setitem)
  have 8: "k \<noteq> i \<longrightarrow> dict_get (snd (delete_project i s)) k = dict_get s k"
    using d by (auto simp: dict_get_def map_of_delitem)
  from 1 2 3 4 5 6 7 8 show ?thesis by simp
qed

theorem frame_witness:
  "''b'' \<noteq> ''a'' \<and>
   dict_get (snd (delete_project ''a''
       [(''a'', \<lparr>title = ''X'', description = ''Y'', tags = [], id' = ''a''\<rparr>),
        (''b'', \<lparr>title = ''Z'', description = ''W'', tags = [], id' = ''b''\<rparr>)])) ''b'' =
     Some \<lparr>title = ''Z'', description = ''W'', tags = [], id' = ''b''\<rparr> \<and>
   dict_get (snd (update_project ''a''
       \<lparr>ProjectUpdate.title = Some ''T'', description = None, tags = None,
        fields_set = [''title'']\<rparr>
       [(''a'', \<lparr>title = ''X'', description = ''Y'', tags = [], id' = ''a''\<rparr>),
        (''b'', \<lparr>title = ''Z'', description = ''W'', tags = [], id' = ''b''\<rparr>)])) ''b'' =
     Some \<lparr>title = ''Z'', description = ''W'', tags = [], id' = ''b''\<rparr> \<and>
   ''b'' \<noteq> str_uuid (uuid4 7) \<and>
   dict_get (snd (create_project 7 \<lparr>title = ''X'', description = ''Y'', tags = [''a'']\<rparr>
       [(''a'', \<lparr>title = ''X'', description = ''Y'', tags = [], id' = ''a''\<rparr>),
        (''b'', \<lparr>title = ''Z'', description = ''W'', tags = [], id' = ''b''\<rparr>)])) ''b'' =
     Some \<lparr>title = ''Z'', description = ''W'', tags = [], id' = ''b''\<rparr>"
  using frame [of
      "[(''a'', \<lparr>title = ''X'', description = ''Y'', tags = [], id' = ''a''\<rparr>),
        (''b'', \<lparr>title = ''Z'', description = ''W'', tags = [], id' = ''b''\<rparr>)]"
      "''a''" 7 "\<lparr>title = ''X'', description = ''Y'', tags = [''a'']\<rparr>"
      "\<lparr>ProjectUpdate.title = Some ''T'', description = None, tags = None,
        fields_set = [''title'']\<rparr>" "''b''"]
  by (simp add: uuid_7 dict_get_def)

end
